theory Spec2Isabelle
  imports Main "HOL-Library.Word"
begin

section \<open>Error provenance recorder: data model\<close>

text \<open>
  C types of the recorder: \<open>int\<close> is a 32-bit word read in two's complement
  (\<open>sint\<close>), \<open>unsigned int\<close> a 32-bit word, and \<open>const char *\<close> is either \<open>NULL\<close>
  (\<open>None\<close>) or a reference to a static string such as the expansion of \<open>__FILE__\<close>.
\<close>

type_synonym c_int = "32 word"
type_synonym c_uint = "32 word"
type_synonym char_ptr = "string option"

text \<open>\<open>struct last_err\<close> of \<open>include/linux/trace_error.h\<close>.\<close>

record last_err =
  "file" :: char_ptr
  line :: c_uint
  errno :: c_int

text \<open>
  A task control structure: the embedded \<open>last_err\<close> member and, as \<open>rest\<close>, every
  other member of \<open>struct task_struct\<close>.
\<close>

record 't task_struct =
  last_err :: last_err
  rest :: 't

text \<open>
  The part of the machine \<open>set_last_err\<close> can see: the task structures (by task
  reference), the value of the \<open>current\<close> macro and of the \<open>in_task()\<close> macro in the
  executing context (both macros come from headers outside this tree, so their values
  are components of the state), and \<open>globals\<close> for all remaining kernel state.
\<close>

type_synonym task_ref = nat

record ('t, 'g) kstate =
  task :: "task_ref \<Rightarrow> 't task_struct"
  current :: task_ref
  in_task :: bool
  globals :: 'g

text \<open>A C expression or statement with side effects on the kernel state.\<close>

type_synonym ('a, 't, 'g) comp = "('t, 'g) kstate \<Rightarrow> 'a \<times> ('t, 'g) kstate"

section \<open>The recorder\<close>

text \<open>The three member stores through \<open>last_err = &current->last_err\<close>.\<close>

definition store_file :: "task_ref \<Rightarrow> char_ptr \<Rightarrow> ('t, 'g) kstate \<Rightarrow> ('t, 'g) kstate" where
  "store_file p v s =
     s\<lparr>task := (task s)(p := (task s p)\<lparr>last_err := (last_err (task s p))\<lparr>file := v\<rparr>\<rparr>)\<rparr>"

definition store_line :: "task_ref \<Rightarrow> c_uint \<Rightarrow> ('t, 'g) kstate \<Rightarrow> ('t, 'g) kstate" where
  "store_line p v s =
     s\<lparr>task := (task s)(p := (task s p)\<lparr>last_err := (last_err (task s p))\<lparr>line := v\<rparr>\<rparr>)\<rparr>"

definition store_errno :: "task_ref \<Rightarrow> c_int \<Rightarrow> ('t, 'g) kstate \<Rightarrow> ('t, 'g) kstate" where
  "store_errno p v s =
     s\<lparr>task := (task s)(p := (task s p)\<lparr>last_err := (last_err (task s p))\<lparr>errno := v\<rparr>\<rparr>)\<rparr>"

text \<open>
  \<^verbatim>\<open>void set_last_err(const char *file, unsigned int line, int errno)\<close>:
  return at once outside task context, otherwise store the three members of the
  current task's record in the order file, line, errno.
\<close>

definition set_last_err ::
  "char_ptr \<Rightarrow> c_uint \<Rightarrow> c_int \<Rightarrow> ('t, 'g) kstate \<Rightarrow> ('t, 'g) kstate" where
  "set_last_err file' line' errno' s =
     (if \<not> in_task s then s
      else let p = current s
           in store_errno p errno' (store_line p line' (store_file p file' s)))"

text \<open>
  The macro \<^verbatim>\<open>ERR(errno)\<close>, a statement expression
  \<^verbatim>\<open>({ set_last_err(__FILE__, __LINE__, errno); errno; })\<close>.
  Its argument is substituted textually, so the argument expression is evaluated twice:
  once as the third argument of \<open>set_last_err\<close> and once as the value of the whole
  expression. \<open>FILE\<close> and \<open>LINE\<close> are the expansions of \<open>__FILE__\<close> and \<open>__LINE__\<close>
  at the place of use.
\<close>

definition ERR ::
  "char_ptr \<Rightarrow> c_uint \<Rightarrow> (c_int, 't, 'g) comp \<Rightarrow> (c_int, 't, 'g) comp" where
  "ERR FILE LINE errno' s =
     (let (v1, s1) = errno' s;
          s2 = set_last_err FILE LINE v1 s1
      in errno' s2)"

text \<open>A constant expression: it has a value and no effect.\<close>

definition const :: "'a \<Rightarrow> ('a, 't, 'g) comp" where
  "const v s = (v, s)"

text \<open>The statement \<^verbatim>\<open>return -ERR(E);\<close> at line \<open>LINE\<close> of file \<open>FILE\<close>.\<close>

definition return_neg_ERR ::
  "char_ptr \<Rightarrow> c_uint \<Rightarrow> c_int \<Rightarrow> (c_int, 't, 'g) comp" where
  "return_neg_ERR FILE LINE E s = (let (v, s') = ERR FILE LINE (const E) s in (- v, s'))"

text \<open>A run of recorder calls made one after the other in the same context.\<close>

fun set_last_err_seq ::
  "(char_ptr \<times> c_uint \<times> c_int) list \<Rightarrow> ('t, 'g) kstate \<Rightarrow> ('t, 'g) kstate" where
  "set_last_err_seq [] s = s"
| "set_last_err_seq ((f, l, e) # calls) s = set_last_err_seq calls (set_last_err f l e s)"

text \<open>The record a completed call leaves behind.\<close>

definition triple :: "char_ptr \<Rightarrow> c_uint \<Rightarrow> c_int \<Rightarrow> last_err" where
  "triple f l e = \<lparr>file = f, line = l, errno = e\<rparr>"

text \<open>
  Modelled from the spec: the error constants are declared in
  \<^verbatim>\<open>include/uapi/asm-generic/errno-base.h\<close>, \<^verbatim>\<open>include/uapi/asm-generic/errno.h\<close> and
  \<^verbatim>\<open>include/linux/errno.h\<close>, the headers the instrumentation script reads, and none
  of them is part of this tree. The spec describes them as small positive integers of
  magnitude below 4096; the values are those of the generic headers.
\<close>

definition EPERM :: c_int where "EPERM = 1"
definition ENOENT :: c_int where "ENOENT = 2"
definition EIO :: c_int where "EIO = 5"
definition ENXIO :: c_int where "ENXIO = 6"
definition ENOMEM :: c_int where "ENOMEM = 12"
definition EACCES :: c_int where "EACCES = 13"
definition EBUSY :: c_int where "EBUSY = 16"
definition EEXIST :: c_int where "EEXIST = 17"
definition ENOTDIR :: c_int where "ENOTDIR = 20"
definition EISDIR :: c_int where "EISDIR = 21"
definition EINVAL :: c_int where "EINVAL = 22"
definition EFBIG :: c_int where "EFBIG = 27"
definition ENOSPC :: c_int where "ENOSPC = 28"
definition EROFS :: c_int where "EROFS = 30"
definition EMLINK :: c_int where "EMLINK = 31"
definition EDEADLK :: c_int where "EDEADLK = 35"
definition ENAMETOOLONG :: c_int where "ENAMETOOLONG = 36"
definition ENOLCK :: c_int where "ENOLCK = 37"
definition ENOTEMPTY :: c_int where "ENOTEMPTY = 39"
definition ELOOP :: c_int where "ELOOP = 40"
definition EBADRQC :: c_int where "EBADRQC = 56"
definition ETIME :: c_int where "ETIME = 62"
definition ENONET :: c_int where "ENONET = 64"
definition EPROTO :: c_int where "EPROTO = 71"
definition EOVERFLOW :: c_int where "EOVERFLOW = 75"
definition ENOTSOCK :: c_int where "ENOTSOCK = 88"
definition EADDRNOTAVAIL :: c_int where "EADDRNOTAVAIL = 99"
definition ENETUNREACH :: c_int where "ENETUNREACH = 101"
definition ECONNABORTED :: c_int where "ECONNABORTED = 103"
definition ECONNRESET :: c_int where "ECONNRESET = 104"
definition ETIMEDOUT :: c_int where "ETIMEDOUT = 110"
definition ECONNREFUSED :: c_int where "ECONNREFUSED = 111"
definition EHOSTDOWN :: c_int where "EHOSTDOWN = 112"
definition EHOSTUNREACH :: c_int where "EHOSTUNREACH = 113"
definition EREMOTEIO :: c_int where "EREMOTEIO = 121"
definition EDQUOT :: c_int where "EDQUOT = 122"
definition ENOMEDIUM :: c_int where "ENOMEDIUM = 123"
definition EKEYEXPIRED :: c_int where "EKEYEXPIRED = 127"
definition EKEYREJECTED :: c_int where "EKEYREJECTED = 129"
definition ERFKILL :: c_int where "ERFKILL = 132"
definition ENOTSUPP :: c_int where "ENOTSUPP = 524"

section \<open>Call sites\<close>


subsection \<open>\<^verbatim>\<open>sound/core/hwdep_compat.c\<close>\<close>






subsection \<open>\<^verbatim>\<open>sst_acpi_probe\<close> of the Intel SST ACPI loader\<close>



subsection \<open>\<^verbatim>\<open>mchp_i2s_mcc_probe\<close> of the Microchip I2S controller driver\<close>



subsection \<open>\<^verbatim>\<open>fs/afs/misc.c\<close>\<close>

text \<open>
  The enumerators used as case labels (\<open>VSALVAGE\<close>, \<open>AFSVL_IDEXIST\<close>, \<open>UAEPERM\<close>,
  \<open>RXKADINCONSISTENCY\<close>, \<open>RXGEN_OPCODE\<close> and so on) and \<^verbatim>\<open>struct afs_error\<close> are declared in
  headers outside this tree. The numbering of the enumerators is the parameter
  \<open>enumerator\<close>; the type of the member \<open>error\<close> is a type parameter, with \<open>to_error\<close>
  the conversion of an \<open>int\<close> on assignment to it and \<open>from_error\<close> its promotion to
  \<open>int\<close> in a comparison.
\<close>

record 'e afs_ext =
  enumerator :: "string \<Rightarrow> 32 word"
  to_error :: "c_int \<Rightarrow> 'e"
  from_error :: "'e \<Rightarrow> c_int"

record 'e afs_error =
  error :: 'e
  responded :: bool

datatype case_label = Lit "32 word" | Name string

fun label_value :: "(string \<Rightarrow> 32 word) \<Rightarrow> case_label \<Rightarrow> 32 word" where
  "label_value V (Lit n) = n"
| "label_value V (Name x) = V x"

definition misc_c :: char_ptr where
  "misc_c = Some ''fs/afs/misc.c''"

text \<open>
  The labelled cases of the \<open>switch\<close> in \<open>afs_abort_to_error\<close>, in source order: the
  label, the line of its \<^verbatim>\<open>return -ERR(E);\<close> and \<open>E\<close>.
\<close>

definition afs_abort_cases :: "(case_label \<times> c_uint \<times> c_int) list" where
  "afs_abort_cases =
     [(Lit 13, 22, EACCES),
      (Lit 27, 23, EFBIG),
      (Lit 30, 24, EROFS),
      (Name ''VSALVAGE'', 27, EIO),
      (Name ''VNOVNODE'', 28, ENOENT),
      (Name ''VNOVOL'', 29, ENOMEDIUM),
      (Name ''VVOLEXISTS'', 30, EEXIST),
      (Name ''VNOSERVICE'', 31, EIO),
      (Name ''VOFFLINE'', 32, ENOENT),
      (Name ''VONLINE'', 33, EEXIST),
      (Name ''VDISKFULL'', 34, ENOSPC),
      (Name ''VOVERQUOTA'', 35, EDQUOT),
      (Name ''VBUSY'', 36, EBUSY),
      (Name ''VMOVED'', 37, ENXIO),
      (Name ''AFSVL_IDEXIST'', 40, EEXIST),
      (Name ''AFSVL_IO'', 41, EREMOTEIO),
      (Name ''AFSVL_NAMEEXIST'', 42, EEXIST),
      (Name ''AFSVL_CREATEFAIL'', 43, EREMOTEIO),
      (Name ''AFSVL_NOENT'', 44, ENOMEDIUM),
      (Name ''AFSVL_EMPTY'', 45, ENOMEDIUM),
      (Name ''AFSVL_ENTDELETED'', 46, ENOMEDIUM),
      (Name ''AFSVL_BADNAME'', 47, EINVAL),
      (Name ''AFSVL_BADINDEX'', 48, EINVAL),
      (Name ''AFSVL_BADVOLTYPE'', 49, EINVAL),
      (Name ''AFSVL_BADSERVER'', 50, EINVAL),
      (Name ''AFSVL_BADPARTITION'', 51, EINVAL),
      (Name ''AFSVL_REPSFULL'', 52, EFBIG),
      (Name ''AFSVL_NOREPSERVER'', 53, ENOENT),
      (Name ''AFSVL_DUPREPSERVER'', 54, EEXIST),
      (Name ''AFSVL_RWNOTFOUND'', 55, ENOENT),
      (Name ''AFSVL_BADREFCOUNT'', 56, EINVAL),
      (Name ''AFSVL_SIZEEXCEEDED'', 57, EINVAL),
      (Name ''AFSVL_BADENTRY'', 58, EINVAL),
      (Name ''AFSVL_BADVOLIDBUMP'', 59, EINVAL),
      (Name ''AFSVL_IDALREADYHASHED'', 60, EINVAL),
      (Name ''AFSVL_ENTRYLOCKED'', 61, EBUSY),
      (Name ''AFSVL_BADVOLOPER'', 62, EBADRQC),
      (Name ''AFSVL_BADRELLOCKTYPE'', 63, EINVAL),
      (Name ''AFSVL_RERELEASE'', 64, EREMOTEIO),
      (Name ''AFSVL_BADSERVERFLAG'', 65, EINVAL),
      (Name ''AFSVL_PERM'', 66, EACCES),
      (Name ''AFSVL_NOMEM'', 67, EREMOTEIO),
      (Name ''UAEPERM'', 70, EPERM),
      (Name ''UAENOENT'', 71, ENOENT),
      (Name ''UAEACCES'', 72, EACCES),
      (Name ''UAEBUSY'', 73, EBUSY),
      (Name ''UAEEXIST'', 74, EEXIST),
      (Name ''UAENOTDIR'', 75, ENOTDIR),
      (Name ''UAEISDIR'', 76, EISDIR),
      (Name ''UAEFBIG'', 77, EFBIG),
      (Name ''UAENOSPC'', 78, ENOSPC),
      (Name ''UAEROFS'', 79, EROFS),
      (Name ''UAEMLINK'', 80, EMLINK),
      (Name ''UAEDEADLK'', 81, EDEADLK),
      (Name ''UAENAMETOOLONG'', 82, ENAMETOOLONG),
      (Name ''UAENOLCK'', 83, ENOLCK),
      (Name ''UAENOTEMPTY'', 84, ENOTEMPTY),
      (Name ''UAELOOP'', 85, ELOOP),
      (Name ''UAEOVERFLOW'', 86, EOVERFLOW),
      (Name ''UAENOMEDIUM'', 87, ENOMEDIUM),
      (Name ''UAEDQUOT'', 88, EDQUOT),
      (Name ''RXKADINCONSISTENCY'', 91, EPROTO),
      (Name ''RXKADPACKETSHORT'', 92, EPROTO),
      (Name ''RXKADLEVELFAIL'', 93, EKEYREJECTED),
      (Name ''RXKADTICKETLEN'', 94, EKEYREJECTED),
      (Name ''RXKADOUTOFSEQUENCE'', 95, EPROTO),
      (Name ''RXKADNOAUTH'', 96, EKEYREJECTED),
      (Name ''RXKADBADKEY'', 97, EKEYREJECTED),
      (Name ''RXKADBADTICKET'', 98, EKEYREJECTED),
      (Name ''RXKADUNKNOWNKEY'', 99, EKEYREJECTED),
      (Name ''RXKADEXPIRED'', 100, EKEYEXPIRED),
      (Name ''RXKADSEALEDINCON'', 101, EKEYREJECTED),
      (Name ''RXKADDATALEN'', 102, EKEYREJECTED),
      (Name ''RXKADILLEGALLEVEL'', 103, EKEYREJECTED),
      (Name ''RXGEN_OPCODE'', 105, ENOTSUPP)]"

text \<open>
  \<^verbatim>\<open>int afs_abort_to_error(u32 abort_code)\<close>: the case whose label equals the code, or
  else \<^verbatim>\<open>default: return -ERR(EREMOTEIO);\<close> at line 107.
\<close>

definition afs_abort_to_error ::
  "(string \<Rightarrow> 32 word) \<Rightarrow> 32 word \<Rightarrow> (c_int, 't, 'g) comp" where
  "afs_abort_to_error V abort_code =
     (case find (\<lambda>(lab, LINE, E). label_value V lab = abort_code) afs_abort_cases of
        Some (lab, LINE, E) \<Rightarrow> return_neg_ERR misc_c LINE E
      | None \<Rightarrow> return_neg_ERR misc_c 107 EREMOTEIO)"

text \<open>
  \<^verbatim>\<open>void afs_prioritise_error(struct afs_error *e, int error, u32 abort_code)\<close>.
  The \<open>switch\<close> falls through from each group of labels into the next; one definition
  per entry point, from the last one upwards. \<open>e_is X e c\<close> is the test \<open>e->error == c\<close>.
\<close>

definition e_is :: "'e afs_ext \<Rightarrow> 'e afs_error \<Rightarrow> c_int \<Rightarrow> bool" where
  "e_is X e c = (from_error X (error e) = c)"

definition at_ECONNRESET :: "'e afs_ext \<Rightarrow> 'e afs_error \<Rightarrow> c_int \<Rightarrow> 'e afs_error" where
  "at_ECONNRESET X e error' =
     (if responded e then e else e\<lparr>error := to_error X error'\<rparr>)"

definition at_ECONNREFUSED :: "'e afs_ext \<Rightarrow> 'e afs_error \<Rightarrow> c_int \<Rightarrow> 'e afs_error" where
  "at_ECONNREFUSED X e error' =
     (if e_is X e (- ECONNRESET) then e else at_ECONNRESET X e error')"

definition at_EHOSTDOWN :: "'e afs_ext \<Rightarrow> 'e afs_error \<Rightarrow> c_int \<Rightarrow> 'e afs_error" where
  "at_EHOSTDOWN X e error' =
     (if e_is X e (- ECONNREFUSED) then e else at_ECONNREFUSED X e error')"

definition at_EHOSTUNREACH :: "'e afs_ext \<Rightarrow> 'e afs_error \<Rightarrow> c_int \<Rightarrow> 'e afs_error" where
  "at_EHOSTUNREACH X e error' =
     (if e_is X e (- EHOSTDOWN) then e else at_EHOSTDOWN X e error')"

definition at_ENETUNREACH :: "'e afs_ext \<Rightarrow> 'e afs_error \<Rightarrow> c_int \<Rightarrow> 'e afs_error" where
  "at_ENETUNREACH X e error' =
     (if e_is X e (- EHOSTUNREACH) then e else at_EHOSTUNREACH X e error')"

definition at_EADDRNOTAVAIL :: "'e afs_ext \<Rightarrow> 'e afs_error \<Rightarrow> c_int \<Rightarrow> 'e afs_error" where
  "at_EADDRNOTAVAIL X e error' =
     (if e_is X e (- ENETUNREACH) then e else at_ENETUNREACH X e error')"

definition at_ERFKILL :: "'e afs_ext \<Rightarrow> 'e afs_error \<Rightarrow> c_int \<Rightarrow> 'e afs_error" where
  "at_ERFKILL X e error' =
     (if e_is X e (- EADDRNOTAVAIL) then e else at_EADDRNOTAVAIL X e error')"

definition at_ENOMEM :: "'e afs_ext \<Rightarrow> 'e afs_error \<Rightarrow> c_int \<Rightarrow> 'e afs_error" where
  "at_ENOMEM X e error' =
     (if e_is X e (- ERFKILL) then e else at_ERFKILL X e error')"

definition at_ETIMEDOUT :: "'e afs_ext \<Rightarrow> 'e afs_error \<Rightarrow> c_int \<Rightarrow> 'e afs_error" where
  "at_ETIMEDOUT X e error' =
     (if e_is X e (- ENOMEM) \<or> e_is X e (- ENONET) then e else at_ENOMEM X e error')"

definition at_default :: "'e afs_ext \<Rightarrow> 'e afs_error \<Rightarrow> c_int \<Rightarrow> 'e afs_error" where
  "at_default X e error' =
     (if e_is X e (- ETIMEDOUT) \<or> e_is X e (- ETIME) then e else at_ETIMEDOUT X e error')"

definition afs_prioritise_error ::
  "'e afs_ext \<Rightarrow> 'e afs_error \<Rightarrow> c_int \<Rightarrow> 32 word \<Rightarrow> ('e afs_error, 't, 'g) comp" where
  "afs_prioritise_error X e error' abort_code s =
     (if error' = 0 then (e, s)
      else if error' = - ETIMEDOUT \<or> error' = - ETIME then (at_ETIMEDOUT X e error', s)
      else if error' = - ENOMEM \<or> error' = - ENONET then (at_ENOMEM X e error', s)
      else if error' = - ERFKILL then (at_ERFKILL X e error', s)
      else if error' = - EADDRNOTAVAIL then (at_EADDRNOTAVAIL X e error', s)
      else if error' = - ENETUNREACH then (at_ENETUNREACH X e error', s)
      else if error' = - EHOSTUNREACH then (at_EHOSTUNREACH X e error', s)
      else if error' = - EHOSTDOWN then (at_EHOSTDOWN X e error', s)
      else if error' = - ECONNREFUSED then (at_ECONNREFUSED X e error', s)
      else if error' = - ECONNRESET then (at_ECONNRESET X e error', s)
      else if error' = - ECONNABORTED
      then (let (r, s') = afs_abort_to_error (enumerator X) abort_code s
            in (e\<lparr>responded := True, error := to_error X r\<rparr>, s'))
      else (at_default X e error', s))"

text \<open>
  A numbering of the enumerators for the worked examples, with a 16-bit \<open>error\<close>
  member. The VICE codes are 101 to 111 and the RXKAD codes start at \<open>0x1260B00\<close>, as
  the comments in the file say; every other enumerator is given \<open>0x2000000\<close> plus its
  position in the \<open>switch\<close>, so that no two labels share a number.
\<close>

definition sample_enumerator :: "string \<Rightarrow> 32 word" where
  "sample_enumerator x =
     (case map_of
        [(''VSALVAGE'', 101), (''VNOVNODE'', 102), (''VNOVOL'', 103), (''VVOLEXISTS'', 104),
         (''VNOSERVICE'', 105), (''VOFFLINE'', 106), (''VONLINE'', 107), (''VDISKFULL'', 108),
         (''VOVERQUOTA'', 109), (''VBUSY'', 110), (''VMOVED'', 111),
         (''RXKADINCONSISTENCY'', 0x1260B00)] x of
        Some n \<Rightarrow> n
      | None \<Rightarrow>
          0x2000000 +
          of_nat (length (takeWhile (\<lambda>(lab, LINE, E). lab \<noteq> Name x) afs_abort_cases)))"

definition sample_afs :: "(16 word) afs_ext" where
  "sample_afs = \<lparr>enumerator = sample_enumerator, to_error = ucast, from_error = scast\<rparr>"

section \<open>The call-site transformation \<^verbatim>\<open>spatch_errors.sh\<close>\<close>

subsection \<open>The list of error names\<close>

text \<open>\<open>contains pat xs\<close>: the text \<open>pat\<close> occurs somewhere in \<open>xs\<close>, as \<open>grep\<close> looks for it.\<close>

fun contains :: "string \<Rightarrow> string \<Rightarrow> bool" where
  "contains pat [] = (pat = [])"
| "contains pat (c # cs) = (take (length pat) (c # cs) = pat \<or> contains pat cs)"

text \<open>\<^verbatim>\<open>IGNORE_ERRORS='(ENOMEM|EFAULT)'\<close>, used with \<^verbatim>\<open>grep -Ev\<close>.\<close>

definition IGNORE_ERRORS :: "string \<Rightarrow> bool" where
  "IGNORE_ERRORS name = (contains ''ENOMEM'' name \<or> contains ''EFAULT'' name)"

text \<open>
  \<^verbatim>\<open>ERRORS\<close>: the names that the three errno headers define with a number (the headers
  are outside this tree, so the names found there are the parameter \<open>defined\<close>), without
  duplicates and without the ignored ones. The script also sorts the names; they are
  only used as the alternatives of one disjunction, where the order does not matter.
\<close>

definition ERRORS :: "string list \<Rightarrow> string list" where
  "ERRORS defined = filter (\<lambda>name. \<not> IGNORE_ERRORS name) (remdups defined)"







subsection \<open>C expressions and statements\<close>

text \<open>
  The fragment of C the semantic patch speaks about. \<open>ERRM e\<close> is the text \<open>ERR(e)\<close>, a use
  of the macro; \<open>Call f args\<close> is any other call.
\<close>

datatype expr =
    Ident string
  | Num int
  | Unop string expr
  | Binop string expr expr
  | LAnd expr expr
  | LOr expr expr
  | Cond expr expr expr
  | Call string "expr list"
  | ERRM expr

datatype stmt =
    Assign expr expr
  | Decl string string expr
  | Return expr
  | Expr expr
  | IfElse expr stmt stmt
  | Switch expr stmt
  | Case expr stmt
  | Default stmt
  | While expr stmt
  | Block "stmt list"

subsection \<open>The semantic patch\<close>

text \<open>
  The second rule, \<^verbatim>\<open>- E@p\<close> \<^verbatim>\<open>+ ERR(E)\<close>, applied at every position \<open>p\<close> that the nest
  \<^verbatim>\<open><+... \($ERRORS\) ...+>\<close> of the first rule binds inside an expression: every
  occurrence of a listed name, at any depth, arguments of calls included.
\<close>

primrec wrap :: "string list \<Rightarrow> expr \<Rightarrow> expr" where
  "wrap ES (Ident x) = (if x \<in> set ES then ERRM (Ident x) else Ident x)"
| "wrap ES (Num n) = Num n"
| "wrap ES (Unop f a) = Unop f (wrap ES a)"
| "wrap ES (Binop f a b) = Binop f (wrap ES a) (wrap ES b)"
| "wrap ES (LAnd a b) = LAnd (wrap ES a) (wrap ES b)"
| "wrap ES (LOr a b) = LOr (wrap ES a) (wrap ES b)"
| "wrap ES (Cond c a b) = Cond (wrap ES c) (wrap ES a) (wrap ES b)"
| "wrap ES (Call f args) = Call f (map (wrap ES) args)"
| "wrap ES (ERRM a) = ERRM (wrap ES a)"

text \<open>
  The first rule selects three kinds of statement: \<^verbatim>\<open>var1 = ...;\<close>, \<^verbatim>\<open>T var2 = ...;\<close> and
  \<^verbatim>\<open>return ...;\<close>. Conditions of \<open>if\<close>, \<open>switch\<close> and \<open>while\<close>, case labels and other
  expression statements are not selected; statements nested in them are.
\<close>

primrec spatch_stmt :: "string list \<Rightarrow> stmt \<Rightarrow> stmt" where
  "spatch_stmt ES (Assign var1 rhs) = Assign var1 (wrap ES rhs)"
| "spatch_stmt ES (Decl T var2 init) = Decl T var2 (wrap ES init)"
| "spatch_stmt ES (Return e) = Return (wrap ES e)"
| "spatch_stmt ES (Expr e) = Expr e"
| "spatch_stmt ES (IfElse c a b) = IfElse c (spatch_stmt ES a) (spatch_stmt ES b)"
| "spatch_stmt ES (Switch e body) = Switch e (spatch_stmt ES body)"
| "spatch_stmt ES (Case label body) = Case label (spatch_stmt ES body)"
| "spatch_stmt ES (Default body) = Default (spatch_stmt ES body)"
| "spatch_stmt ES (While c body) = While c (spatch_stmt ES body)"
| "spatch_stmt ES (Block body) = Block (map (spatch_stmt ES) body)"

text \<open>One run of the script over a source file, given the names the headers define.\<close>

definition spatch :: "string list \<Rightarrow> stmt list \<Rightarrow> stmt list" where
  "spatch defined src = map (spatch_stmt (ERRORS defined)) src"

subsection \<open>Comparing two versions of a source file\<close>

text \<open>
  \<open>rvalues st\<close> lists, in source order, the expressions of \<open>st\<close> that the first rule
  selects; \<open>frame st\<close> is \<open>st\<close> with each of them blanked out, that is, everything
  the patch never touches.
\<close>

primrec rvalues :: "stmt \<Rightarrow> expr list" where
  "rvalues (Assign var1 rhs) = [rhs]"
| "rvalues (Decl T var2 init) = [init]"
| "rvalues (Return e) = [e]"
| "rvalues (Expr e) = []"
| "rvalues (IfElse c a b) = rvalues a @ rvalues b"
| "rvalues (Switch e body) = rvalues body"
| "rvalues (Case label body) = rvalues body"
| "rvalues (Default body) = rvalues body"
| "rvalues (While c body) = rvalues body"
| "rvalues (Block body) = concat (map rvalues body)"

primrec frame :: "stmt \<Rightarrow> stmt" where
  "frame (Assign var1 rhs) = Assign var1 (Num 0)"
| "frame (Decl T var2 init) = Decl T var2 (Num 0)"
| "frame (Return e) = Return (Num 0)"
| "frame (Expr e) = Expr e"
| "frame (IfElse c a b) = IfElse c (frame a) (frame b)"
| "frame (Switch e body) = Switch e (frame body)"
| "frame (Case label body) = Case label (frame body)"
| "frame (Default body) = Default (frame body)"
| "frame (While c body) = While c (frame body)"
| "frame (Block body) = Block (map frame body)"

subsection \<open>What a run wraps and what it leaves alone\<close>



text \<open>
  \<open>guards st\<close> are the expressions of \<open>st\<close> that stand where C wants a condition or a
  constant: the conditions of \<open>if\<close>, \<open>switch\<close> and \<open>while\<close>, and the case labels.
\<close>

primrec guards :: "stmt \<Rightarrow> expr list" where
  "guards (Assign var1 rhs) = []"
| "guards (Decl T var2 init) = []"
| "guards (Return e) = []"
| "guards (Expr e) = []"
| "guards (IfElse c a b) = c # guards a @ guards b"
| "guards (Switch e body) = e # guards body"
| "guards (Case label body) = label # guards body"
| "guards (Default body) = guards body"
| "guards (While c body) = c # guards body"
| "guards (Block body) = concat (map guards body)"

text \<open>A \<open>simple\<close> expression has no call and no \<open>ERR(...)\<close>, like \<open>e->error == -ETIME\<close>.\<close>

primrec simple :: "expr \<Rightarrow> bool" where
  "simple (Ident x) = True"
| "simple (Num n) = True"
| "simple (Unop f a) = simple a"
| "simple (Binop f a b) = (simple a \<and> simple b)"
| "simple (LAnd a b) = (simple a \<and> simple b)"
| "simple (LOr a b) = (simple a \<and> simple b)"
| "simple (Cond c a b) = (simple c \<and> simple a \<and> simple b)"
| "simple (Call f args) = False"
| "simple (ERRM a) = False"

subsection \<open>Evaluation of expressions\<close>

text \<open>
  The meaning of an \<open>int\<close>-valued expression on one source line, given the values of the
  identifiers (error constants and variables), the strict operators and the called
  functions. Operands and arguments are evaluated from left to right; \<open>&&\<close>, \<open>||\<close> and
  \<open>?:\<close> evaluate what C says they evaluate; \<open>ERR(e)\<close> is the macro of
  \<^verbatim>\<open>include/linux/trace_error.h\<close>.
\<close>

record ('t, 'g) c_env =
  c_FILE :: char_ptr
  c_LINE :: c_uint
  ident :: "string \<Rightarrow> c_int"
  unop :: "string \<Rightarrow> c_int \<Rightarrow> c_int"
  binop :: "string \<Rightarrow> c_int \<Rightarrow> c_int \<Rightarrow> c_int"
  func :: "string \<Rightarrow> c_int list \<Rightarrow> (c_int, 't, 'g) comp"

fun in_order :: "('a, 't, 'g) comp list \<Rightarrow> ('a list, 't, 'g) comp" where
  "in_order [] s = ([], s)"
| "in_order (c # cs) s =
     (let (v, s1) = c s; (vs, s2) = in_order cs s1 in (v # vs, s2))"

definition truth :: "bool \<Rightarrow> c_int" where
  "truth b = (if b then 1 else 0)"

primrec eval :: "('t, 'g) c_env \<Rightarrow> expr \<Rightarrow> (c_int, 't, 'g) comp" where
  "eval X (Ident x) = const (ident X x)"
| "eval X (Num n) = const (word_of_int n)"
| "eval X (Unop f a) = (\<lambda>s. let (v, s1) = eval X a s in (unop X f v, s1))"
| "eval X (Binop f a b) =
     (\<lambda>s. let (v, s1) = eval X a s; (w, s2) = eval X b s1 in (binop X f v w, s2))"
| "eval X (LAnd a b) =
     (\<lambda>s. let (v, s1) = eval X a s
          in if v = 0 then (0, s1) else let (w, s2) = eval X b s1 in (truth (w \<noteq> 0), s2))"
| "eval X (LOr a b) =
     (\<lambda>s. let (v, s1) = eval X a s
          in if v \<noteq> 0 then (1, s1) else let (w, s2) = eval X b s1 in (truth (w \<noteq> 0), s2))"
| "eval X (Cond c a b) =
     (\<lambda>s. let (v, s1) = eval X c s in if v \<noteq> 0 then eval X a s1 else eval X b s1)"
| "eval X (Call f args) =
     (\<lambda>s. let (vs, s1) = in_order (map (eval X) args) s in func X f vs s1)"
| "eval X (ERRM a) = ERR (c_FILE X) (c_LINE X) (eval X a)"

text \<open>
  Example data: a few names as the errno headers define them, and an environment with
  their values, negation and nothing else, at line 745 of \<^verbatim>\<open>fs/ioctl.c\<close>.
\<close>

definition sample_defined :: "string list" where
  "sample_defined = [''EPERM'', ''ENOENT'', ''EBADF'', ''ENOMEM'', ''EFAULT'', ''EINVAL'']"

definition sample_env :: "(unit, unit) c_env" where
  "sample_env =
     \<lparr>c_FILE = Some ''fs/ioctl.c'', c_LINE = 745,
      ident = (\<lambda>x. if x = ''EBADF'' then 9 else if x = ''EINVAL'' then 22 else 0),
      unop = (\<lambda>f v. if f = ''-'' then - v else v),
      binop = (\<lambda>f v w. 0),
      func = (\<lambda>f vs s. (0, s))\<rparr>"





text \<open>
  A machine whose task structures are all zero-initialised, with task reference 1
  running in task context, and the same machine while it serves an interrupt that
  arrived during task 1.
\<close>

definition zeroed_task :: "unit task_struct" where
  "zeroed_task = \<lparr>last_err = \<lparr>file = None, line = 0, errno = 0\<rparr>, rest = ()\<rparr>"

definition fresh_state :: "(unit, unit) kstate" where
  "fresh_state = \<lparr>task = (\<lambda>_. zeroed_task), current = 1, in_task = True, globals = ()\<rparr>"

definition irq_state :: "(unit, unit) kstate" where
  "irq_state = fresh_state\<lparr>in_task := False\<rparr>"




section \<open>Properties of the recorder\<close>

lemma last_err_overwrite: "(r::last_err)\<lparr>file := f, line := l, errno := e\<rparr> = triple f l e"
  by (cases r) (simp add: triple_def)

lemma set_last_err_in_task:
  "in_task s \<Longrightarrow>
   set_last_err f l e s =
     s\<lparr>task := (task s)(current s := (task s (current s))\<lparr>last_err := triple f l e\<rparr>)\<rparr>"
  by (simp add: set_last_err_def store_file_def store_line_def store_errno_def Let_def
      last_err_overwrite)

lemma set_last_err_no_task: "\<not> in_task s \<Longrightarrow> set_last_err f l e s = s"
  by (simp add: set_last_err_def)

lemma set_last_err_context:
  "current (set_last_err f l e s) = current s"
  "in_task (set_last_err f l e s) = in_task s"
  "globals (set_last_err f l e s) = globals s"
  by (cases "in_task s"; simp add: set_last_err_in_task set_last_err_no_task)+

lemma ERR_const: "ERR FILE LINE (const E) s = (E, set_last_err FILE LINE E s)"
  by (simp add: ERR_def const_def)

lemma set_last_err_record:
  "in_task s \<Longrightarrow> last_err (task (set_last_err f l e s) (current s)) = triple f l e"
  by (simp add: set_last_err_in_task)

lemma set_last_err_other_task:
  "B \<noteq> current s \<Longrightarrow> task (set_last_err f l e s) B = task s B"
  by (cases "in_task s") (simp_all add: set_last_err_in_task set_last_err_no_task)

lemma set_last_err_rest:
  "rest (task (set_last_err f l e s) A) = rest (task s A)"
  by (cases "in_task s") (simp_all add: set_last_err_in_task set_last_err_no_task)

lemma fresh_state_simps:
  "in_task fresh_state" "current fresh_state = 1" "globals fresh_state = ()"
  "task fresh_state p = zeroed_task"
  by (simp_all add: fresh_state_def)

lemma irq_state_simps:
  "\<not> in_task irq_state" "current irq_state = 1" "task irq_state p = zeroed_task"
  by (simp_all add: irq_state_def fresh_state_def)

subsection \<open>Transparency\<close>

text \<open>
  Claim C1. For every file, line and code, the wrapped expression \<open>ERR(code)\<close> evaluates
  to exactly \<open>code\<close>, in task context or outside it: recording is a side effect only and
  never changes the value flowing through the expression.
\<close>

theorem ERR_transparent: "fst (ERR FILE LINE (const code) s) = code"
  by (simp add: ERR_const)

subsection \<open>Last write wins\<close>

text \<open>
  Claim C2. After any non-empty run of \<open>set_last_err\<close> calls made by a task in task
  context, that task's record holds exactly the triple of the last call: all three
  members come from that call, none from an earlier one.
\<close>

theorem last_write_wins:
  "in_task s \<Longrightarrow> calls \<noteq> [] \<Longrightarrow>
   last_err (task (set_last_err_seq calls s) (current s)) =
     (case last calls of (f, l, e) \<Rightarrow> triple f l e)"
proof (induction calls arbitrary: s)
  case Nil
  then show ?case by simp
next
  case (Cons c calls)
  obtain f l e where c: "c = (f, l, e)" by (cases c)
  let ?s1 = "set_last_err f l e s"
  have ctx: "in_task ?s1" "current ?s1 = current s"
    using Cons.prems(1) by (simp_all add: set_last_err_context)
  show ?case
  proof (cases "calls = []")
    case True
    then show ?thesis using Cons.prems(1) c by (simp add: set_last_err_record)
  next
    case False
    then show ?thesis using Cons.IH [OF ctx(1) False] c ctx(2) by simp
  qed
qed

theorem last_write_wins_witness:
  "in_task fresh_state \<and>
   [(Some ''net/socket.c'', 458, ENOTSOCK), (Some ''kernel/pid_namespace.c'', 273, EPERM)] \<noteq> [] \<and>
   last_err (task (set_last_err_seq
       [(Some ''net/socket.c'', 458, ENOTSOCK), (Some ''kernel/pid_namespace.c'', 273, EPERM)]
       fresh_state) (current fresh_state)) =
     \<lparr>file = Some ''kernel/pid_namespace.c'', line = 273, errno = 1\<rparr>"
  using last_write_wins [of fresh_state
      "[(Some ''net/socket.c'', 458, ENOTSOCK), (Some ''kernel/pid_namespace.c'', 273, EPERM)]"]
  by (simp add: fresh_state_simps triple_def EPERM_def)

subsection \<open>No-context safety\<close>

text \<open>
  Claim C3. When \<open>in_task()\<close> is false, \<open>set_last_err\<close> returns before it touches any
  memory: the whole state, hence every task's record, is what it was, and the
  surrounding \<open>ERR(code)\<close> still evaluates to \<open>code\<close>. The function has no failing
  branch: its only memory accesses lie behind the \<open>in_task()\<close> test.
\<close>

theorem no_context_safety:
  "\<not> in_task s \<Longrightarrow>
   set_last_err f l e s = s \<and> ERR f l (const e) s = (e, s)"
  by (simp add: ERR_const set_last_err_no_task)

theorem no_context_safety_witness:
  "\<not> in_task irq_state \<and>
   set_last_err (Some ''fs/ioctl.c'') 745 9 irq_state = irq_state \<and>
   ERR (Some ''fs/ioctl.c'') 745 (const 9) irq_state = (9, irq_state)"
  using no_context_safety [of irq_state "Some ''fs/ioctl.c''" 745 9]
  by (simp add: irq_state_simps)

subsection \<open>Task isolation and frame\<close>

text \<open>
  Claim C4. A call executed by task \<open>A = current\<close> changes nothing but the
  \<open>last_err\<close> member of \<open>A\<close>'s own task structure: every other task structure is
  unchanged, the other members of \<open>A\<close>'s structure are unchanged, and so are the
  remaining kernel state and the execution context.
\<close>

theorem task_isolation:
  "B \<noteq> current s \<Longrightarrow>
   task (set_last_err f l e s) B = task s B \<and>
   rest (task (set_last_err f l e s) (current s)) = rest (task s (current s)) \<and>
   globals (set_last_err f l e s) = globals s \<and>
   current (set_last_err f l e s) = current s \<and>
   in_task (set_last_err f l e s) = in_task s"
  by (simp add: set_last_err_other_task set_last_err_rest set_last_err_context)

theorem task_isolation_witness:
  "(2::nat) \<noteq> current fresh_state \<and>
   task (set_last_err (Some ''fs/namei.c'') 1269 2 fresh_state) 2 = zeroed_task \<and>
   last_err (task (set_last_err (Some ''fs/namei.c'') 1269 2 fresh_state) 1) =
     \<lparr>file = Some ''fs/namei.c'', line = 1269, errno = 2\<rparr> \<and>
   globals (set_last_err (Some ''fs/namei.c'') 1269 2 fresh_state) = ()"
  using task_isolation [of 2 fresh_state "Some ''fs/namei.c''" 1269 2]
    set_last_err_record [of fresh_state "Some ''fs/namei.c''" 1269 2]
  by (simp add: fresh_state_simps triple_def)

subsection \<open>No filtering, no validation\<close>

text \<open>
  Claim C5. In task context \<open>set_last_err\<close> overwrites all three members of the current
  task's record with the values supplied, whatever the code is: excluded codes such as
  \<open>ENOMEM\<close> and \<open>EFAULT\<close>, zero and every other integer are stored like any other.
\<close>

theorem no_filtering:
  "in_task s \<Longrightarrow>
   file (last_err (task (set_last_err f l e s) (current s))) = f \<and>
   line (last_err (task (set_last_err f l e s) (current s))) = l \<and>
   errno (last_err (task (set_last_err f l e s) (current s))) = e"
  by (simp add: set_last_err_record triple_def)

theorem no_filtering_witness:
  "in_task fresh_state \<and>
   file (last_err (task (set_last_err (Some ''mm/mmap.c'') 100 ENOMEM fresh_state)
     (current fresh_state))) = Some ''mm/mmap.c'' \<and>
   line (last_err (task (set_last_err (Some ''mm/mmap.c'') 100 ENOMEM fresh_state)
     (current fresh_state))) = 100 \<and>
   errno (last_err (task (set_last_err (Some ''mm/mmap.c'') 100 ENOMEM fresh_state)
     (current fresh_state))) = 12"
  using no_filtering [of fresh_state "Some ''mm/mmap.c''" 100 ENOMEM]
  by (simp add: fresh_state_simps ENOMEM_def)

text \<open>
  Claim C10. The recorder validates nothing: in task context the record holds exactly
  the file, line and code passed in, for every 32-bit code (zero, positive, of
  magnitude 4096 or more, or negative when read as signed). At a call site
  \<open>return -ERR(X)\<close> the value returned is \<open>-X\<close> while the code stored is \<open>X\<close> itself.
\<close>

theorem no_validation:
  "in_task s \<Longrightarrow>
   last_err (task (snd (ERR f l (const e) s)) (current s)) = triple f l e \<and>
   fst (return_neg_ERR f l e s) = - e \<and>
   last_err (task (snd (return_neg_ERR f l e s)) (current s)) = triple f l e"
  by (simp add: return_neg_ERR_def ERR_const set_last_err_record)

theorem no_validation_witness:
  "in_task fresh_state \<and>
   last_err (task (snd (ERR None 0 (const 70000) fresh_state)) (current fresh_state)) =
     \<lparr>file = None, line = 0, errno = 70000\<rparr> \<and>
   sint (fst (return_neg_ERR None 0 70000 fresh_state)) = - 70000 \<and>
   sint (errno (last_err (task (snd (return_neg_ERR None 0 70000 fresh_state))
     (current fresh_state)))) = 70000"
  using no_validation [of fresh_state None 0 70000]
  by (simp add: fresh_state_simps triple_def)

section \<open>Properties of the call sites\<close>

lemma return_neg_ERR_eq:
  "return_neg_ERR FILE LINE E s = (- E, set_last_err FILE LINE E s)"
  by (simp add: return_neg_ERR_def ERR_const)










subsection \<open>Constants in case labels and comparisons\<close>

lemma afs_prioritise_error_other:
  "error' \<noteq> - ECONNABORTED \<Longrightarrow> snd (afs_prioritise_error X e error' abort_code s) = s"
  by (simp add: afs_prioritise_error_def)

lemma afs_prioritise_error_aborted:
  "snd (afs_prioritise_error X e (- ECONNABORTED) abort_code s) =
     snd (afs_abort_to_error (enumerator X) abort_code s)"
  by (simp add: afs_prioritise_error_def split_def Let_def ECONNABORTED_def ETIMEDOUT_def ETIME_def
      ENOMEM_def ENONET_def ERFKILL_def EADDRNOTAVAIL_def ENETUNREACH_def EHOSTUNREACH_def
      EHOSTDOWN_def ECONNREFUSED_def ECONNRESET_def)

lemma afs_abort_to_error_13:
  "afs_abort_to_error V 13 s = (- EACCES, set_last_err misc_c 22 EACCES s)"
  by (simp add: afs_abort_to_error_def afs_abort_cases_def return_neg_ERR_eq)

text \<open>
  Claim C7, as stated, fails: \<open>afs_prioritise_error\<close> called with \<open>-ECONNABORTED\<close> and abort
  code 13 overwrites the zeroed record of the current task with
  \<open>("fs/afs/misc.c", 22, EACCES)\<close>, through its call of \<open>afs_abort_to_error\<close>.
\<close>

theorem afs_prioritise_error_records:
  "last_err (task fresh_state 1) = \<lparr>file = None, line = 0, errno = 0\<rparr> \<and>
   last_err (task (snd (afs_prioritise_error sample_afs \<lparr>error = 0, responded = False\<rparr>
       (- ECONNABORTED) 13 fresh_state)) 1) =
     \<lparr>file = Some ''fs/afs/misc.c'', line = 22, errno = 13\<rparr>"
  by (simp add: afs_prioritise_error_aborted afs_abort_to_error_13 set_last_err_in_task
      fresh_state_simps zeroed_task_def triple_def misc_c_def EACCES_def)

section \<open>Properties of the transformation\<close>

lemma set_last_err_idem:
  "set_last_err f l e (set_last_err f l e s) = set_last_err f l e s"
  by (cases "in_task s") (simp_all add: set_last_err_in_task set_last_err_no_task)

lemma ERR_ERR_const: "ERR F L (ERR F L (const c)) = ERR F L (const c)"
  by (rule ext) (simp add: ERR_def const_def set_last_err_idem)

lemma ERRORS_sample: "ERRORS sample_defined = [''EPERM'', ''ENOENT'', ''EBADF'', ''EINVAL'']"
  by (simp add: ERRORS_def sample_defined_def IGNORE_ERRORS_def)

text \<open>
  Claim C9, as stated, fails: the nest of the first rule also reaches the argument of
  an \<open>ERR(...)\<close> that an earlier run put there, so a second run over
  \<^verbatim>\<open>return -ERR(EBADF);\<close> gives \<^verbatim>\<open>return -ERR(ERR(EBADF));\<close>.
\<close>

theorem spatch_twice_double_wraps:
  "spatch sample_defined [Return (Unop ''-'' (Ident ''EBADF''))] =
     [Return (Unop ''-'' (ERRM (Ident ''EBADF'')))] \<and>
   spatch sample_defined (spatch sample_defined [Return (Unop ''-'' (Ident ''EBADF''))]) =
     [Return (Unop ''-'' (ERRM (ERRM (Ident ''EBADF''))))] \<and>
   spatch sample_defined (spatch sample_defined [Return (Unop ''-'' (Ident ''EBADF''))]) \<noteq>
     spatch sample_defined [Return (Unop ''-'' (Ident ''EBADF''))]"
  by (simp add: spatch_def ERRORS_sample)

lemma eval_wrap_twice: "eval X (wrap ES (wrap ES e)) = eval X (wrap ES e)"
proof (induction e)
  case (Ident x)
  then show ?case by (simp add: ERR_ERR_const)
next
  case (Call f args)
  have "map (eval X) (map (wrap ES) (map (wrap ES) args)) = map (eval X) (map (wrap ES) args)"
    using Call.IH by (induction args) simp_all
  then show ?case by (simp only: wrap.simps eval.simps)
qed (simp_all cong: if_cong)

lemma frame_spatch_stmt: "frame (spatch_stmt ES st) = frame st"
  by (induction st) (simp_all add: map_idI)

lemma rvalues_spatch_stmt: "rvalues (spatch_stmt ES st) = map (wrap ES) (rvalues st)"
proof (induction st)
  case (Block body)
  then show ?case by (induction body) simp_all
qed simp_all

text \<open>
  Claim C9, amended. A second run of the transformation wraps every listed constant
  once more, but this changes no behaviour. For every source file, the file transformed
  twice and the file transformed once are the same outside the selected expressions,
  and each selected expression has the same value and the same effect on the kernel
  state in both, on whatever line it stands and whatever the identifiers, operators
  and called functions mean.
\<close>

theorem spatch_twice_same_behaviour:
  "map frame (spatch defined (spatch defined src)) = map frame (spatch defined src) \<and>
   map (eval X) (concat (map rvalues (spatch defined (spatch defined src)))) =
     map (eval X) (concat (map rvalues (spatch defined src)))"
proof
  show "map frame (spatch defined (spatch defined src)) = map frame (spatch defined src)"
    by (simp add: spatch_def frame_spatch_stmt comp_def)
next
  have "map (eval X) (rvalues (spatch_stmt ES (spatch_stmt ES st))) =
      map (eval X) (rvalues (spatch_stmt ES st))" for ES st
    by (simp add: rvalues_spatch_stmt eval_wrap_twice comp_def)
  then show "map (eval X) (concat (map rvalues (spatch defined (spatch defined src)))) =
      map (eval X) (concat (map rvalues (spatch defined src)))"
    unfolding spatch_def by (induction src) simp_all
qed

section \<open>The selection rule and the call sites\<close>










lemma guards_spatch_stmt: "guards (spatch_stmt ES st) = guards st"
proof (induction st)
  case (Block body)
  then show ?case by (induction body) simp_all
qed simp_all

lemma eval_simple: "simple e \<Longrightarrow> snd (eval X e s) = s"
  by (induction e arbitrary: s) (auto simp: const_def split_def Let_def)








subsection \<open>Exclusion at call sites\<close>




subsection \<open>Constants in conditions and case labels\<close>

text \<open>
  Claim C7, amended. An error constant in the condition of an \<open>if\<close>, \<open>switch\<close> or \<open>while\<close>
  or in a case label is never wrapped: a run leaves every condition and every case
  label of every source file as it was, and a condition without calls, such as an
  equality test against an error constant, records nothing when it is evaluated. So
  \<open>afs_prioritise_error\<close>, whose error constants occur only in case labels and \<open>==\<close>
  comparisons, makes no recording call of its own: for every \<open>error\<close> other than
  \<open>-ECONNABORTED\<close> it leaves the whole kernel state, hence every task's record,
  unchanged; for \<open>-ECONNABORTED\<close> the only change of state is the one made by its
  callee \<open>afs_abort_to_error\<close>, whose return statements are wrapped.
\<close>

theorem afs_prioritise_error_frame:
  "map guards (spatch names fsrc) = map guards fsrc \<and>
   (simple g \<longrightarrow> snd (eval E g t) = t) \<and>
   (error' \<noteq> - ECONNABORTED \<longrightarrow> snd (afs_prioritise_error X e error' abort_code s) = s) \<and>
   (error' = - ECONNABORTED \<longrightarrow>
      snd (afs_prioritise_error X e error' abort_code s) =
        snd (afs_abort_to_error (enumerator X) abort_code s))"
proof (intro conjI)
  show "map guards (spatch names fsrc) = map guards fsrc"
    by (simp add: spatch_def guards_spatch_stmt comp_def)
  show "simple g \<longrightarrow> snd (eval E g t) = t"
    using eval_simple [of g E t] by blast
  show "error' \<noteq> - ECONNABORTED \<longrightarrow> snd (afs_prioritise_error X e error' abort_code s) = s"
    using afs_prioritise_error_other [of error' X e abort_code s] by blast
  show "error' = - ECONNABORTED \<longrightarrow>
      snd (afs_prioritise_error X e error' abort_code s) =
        snd (afs_abort_to_error (enumerator X) abort_code s)"
    using afs_prioritise_error_aborted [of X e abort_code s] by blast
qed

theorem afs_prioritise_error_frame_witness:
  "map guards (spatch sample_defined
     [Switch (Ident ''error'')
        (Case (Unop ''-'' (Ident ''EINVAL''))
           (IfElse (Binop ''=='' (Ident ''x'') (Unop ''-'' (Ident ''EBADF'')))
              (Return (Unop ''-'' (Ident ''EPERM''))) (Block [])))]) =
     [[Ident ''error'', Unop ''-'' (Ident ''EINVAL''),
       Binop ''=='' (Ident ''x'') (Unop ''-'' (Ident ''EBADF''))]] \<and>
   simple (Binop ''=='' (Ident ''x'') (Unop ''-'' (Ident ''EBADF''))) \<and>
   snd (eval sample_env (Binop ''=='' (Ident ''x'') (Unop ''-'' (Ident ''EBADF''))) fresh_state) =
     fresh_state \<and>
   - ETIMEDOUT \<noteq> - ECONNABORTED \<and>
   snd (afs_prioritise_error sample_afs \<lparr>error = 0, responded = False\<rparr>
     (- ETIMEDOUT) 0 fresh_state) = fresh_state \<and>
   fst (afs_prioritise_error sample_afs \<lparr>error = 0, responded = False\<rparr>
     (- ETIMEDOUT) 0 (fresh_state :: (unit, unit) kstate)) =
     \<lparr>error = ucast (- ETIMEDOUT), responded = False\<rparr>"
proof -
  note inst = afs_prioritise_error_frame [where error' = "- ETIMEDOUT" and X = sample_afs
      and e = "\<lparr>error = 0, responded = False\<rparr>" and abort_code = 0 and s = fresh_state
      and g = "Binop ''=='' (Ident ''x'') (Unop ''-'' (Ident ''EBADF''))"
      and E = sample_env and t = fresh_state and names = sample_defined
      and fsrc = "[Switch (Ident ''error'')
        (Case (Unop ''-'' (Ident ''EINVAL''))
           (IfElse (Binop ''=='' (Ident ''x'') (Unop ''-'' (Ident ''EBADF'')))
              (Return (Unop ''-'' (Ident ''EPERM''))) (Block [])))]"]
  have ne: "- ETIMEDOUT \<noteq> - ECONNABORTED"
    by (simp add: ETIMEDOUT_def ECONNABORTED_def)
  have sim: "simple (Binop ''=='' (Ident ''x'') (Unop ''-'' (Ident ''EBADF'')))"
    by simp
  have gd: "map guards (spatch sample_defined
     [Switch (Ident ''error'')
        (Case (Unop ''-'' (Ident ''EINVAL''))
           (IfElse (Binop ''=='' (Ident ''x'') (Unop ''-'' (Ident ''EBADF'')))
              (Return (Unop ''-'' (Ident ''EPERM''))) (Block [])))]) =
     [[Ident ''error'', Unop ''-'' (Ident ''EINVAL''),
       Binop ''=='' (Ident ''x'') (Unop ''-'' (Ident ''EBADF''))]]"
    using inst [THEN conjunct1] by simp
  have ev: "snd (eval sample_env (Binop ''=='' (Ident ''x'') (Unop ''-'' (Ident ''EBADF'')))
      fresh_state) = fresh_state"
    using inst [THEN conjunct2, THEN conjunct1] sim by blast
  have st: "snd (afs_prioritise_error sample_afs
      \<lparr>error = 0, responded = False\<rparr> (- ETIMEDOUT) 0 fresh_state) = fresh_state"
    using inst [THEN conjunct2, THEN conjunct2, THEN conjunct1] ne by blast
  have val: "fst (afs_prioritise_error sample_afs
      \<lparr>error = 0, responded = False\<rparr> (- ETIMEDOUT) 0
      (fresh_state :: (unit, unit) kstate)) = \<lparr>error = ucast (- ETIMEDOUT), responded = False\<rparr>"
    by (simp add: afs_prioritise_error_def at_ETIMEDOUT_def at_ENOMEM_def at_ERFKILL_def
        at_EADDRNOTAVAIL_def at_ENETUNREACH_def at_EHOSTUNREACH_def at_EHOSTDOWN_def
        at_ECONNREFUSED_def at_ECONNRESET_def e_is_def sample_afs_def
        ETIMEDOUT_def ENOMEM_def ENONET_def ERFKILL_def EADDRNOTAVAIL_def ENETUNREACH_def
        EHOSTUNREACH_def EHOSTDOWN_def ECONNREFUSED_def ECONNRESET_def)
  show ?thesis using gd sim ev ne st val by blast
qed

end
